theory Spec2Isabelle
  imports Main "HOL-Library.Word" "HOL-Library.AList"
begin

section \<open>Python values, exceptions and the string built-ins the converters call\<close>

text \<open>
  The converters of \<^verbatim>\<open>dmcontent/converters.py\<close> take any Python object. The values
  modelled here are the built-in scalars and containers a form submission can hold.
  A \<^verbatim>\<open>str\<close> is a list of code points; a \<^typ>\<open>char\<close> is one code point below 256, so
  the model covers the Latin-1 part of \<^verbatim>\<open>str\<close> (the pound sign is \<open>CHR 0xA3\<close>).
  A \<^verbatim>\<open>float\<close> is its 64 bits.
\<close>

datatype pyerr = AttributeError | TypeError | ValueError

datatype pyval =
    PNone
  | PBool bool
  | PInt int
  | PFloat "64 word"
  | PStr string
  | PBytes string
  | PList "pyval list"

text \<open>\<^verbatim>\<open>str.lower\<close>: the cased code points below 256 are A-Z and U+00C0-U+00DE
  without the multiplication sign U+00D7; their lower case is 32 further on.\<close>

definition lower_char :: "char \<Rightarrow> char" where
  "lower_char c =
     (let n = (of_char c :: nat) in
      if (65 \<le> n \<and> n \<le> 90) \<or> (192 \<le> n \<and> n \<le> 222 \<and> n \<noteq> 215)
      then char_of (n + 32) else c)"

definition lower :: "string \<Rightarrow> string" where
  "lower s = map lower_char s"

text \<open>\<^verbatim>\<open>s.startswith(p)\<close>, \<^verbatim>\<open>s.endswith(q)\<close> and the two slices
  \<^verbatim>\<open>s[len(p):]\<close>, \<^verbatim>\<open>s[:-len(q)]\<close> (the second for a non-empty \<open>q\<close>, so that the
  bound is negative and counts from the end, stopping at 0).\<close>

definition startswith :: "string \<Rightarrow> string \<Rightarrow> bool" where
  "startswith s p = (take (length p) s = p)"

definition endswith :: "string \<Rightarrow> string \<Rightarrow> bool" where
  "endswith s q = (length q \<le> length s \<and> drop (length s - length q) s = q)"

definition slice_from :: "nat \<Rightarrow> string \<Rightarrow> string" where
  "slice_from k s = drop k s"

definition slice_to_minus :: "nat \<Rightarrow> string \<Rightarrow> string" where
  "slice_to_minus k s = take (length s - k) s"

text \<open>Truth value of an optional string argument: \<^verbatim>\<open>None\<close> and \<^verbatim>\<open>""\<close> are false.\<close>

fun truthy :: "string option \<Rightarrow> bool" where
  "truthy None = False"
| "truthy (Some s) = (s \<noteq> [])"

subsection \<open>\<^verbatim>\<open>int(str)\<close>\<close>

text \<open>
  \<^verbatim>\<open>int\<close> on a string, base 10: surrounding whitespace, one optional sign directly
  before the digits, digits with single underscores between them; anything else is a
  \<^verbatim>\<open>ValueError\<close> (\<open>None\<close> here). Below 256 the whitespace code points it accepts are
  9-13, 32, U+0085 and U+00A0, and the decimal digits are 0-9.

  Since CPython 3.11 a numeral with too many digits is a \<^verbatim>\<open>ValueError\<close> as well: with
  the interpreter setting \<^verbatim>\<open>sys.get_int_max_str_digits()\<close> at \<open>lim\<close> (4300 unless
  changed, 0 for no limit, as in older interpreters) a numeral of more than 640 and more
  than \<open>lim\<close> digit characters is refused. Leading zeros count; the sign, underscores and
  whitespace do not.
\<close>

definition isspace :: "char \<Rightarrow> bool" where
  "isspace c = ((of_char c :: nat) \<in> set [9, 10, 11, 12, 13, 32, 133, 160])"

definition isdigit :: "char \<Rightarrow> bool" where
  "isdigit c = (48 \<le> (of_char c :: nat) \<and> (of_char c :: nat) \<le> 57)"

definition digit_or_underscore :: "char \<Rightarrow> bool" where
  "digit_or_underscore c = (isdigit c \<or> c = CHR ''_'')"

definition digit_value :: "char \<Rightarrow> int" where
  "digit_value c = int (of_char c - 48)"

fun grouped_digits :: "string \<Rightarrow> bool" where
  "grouped_digits [] = False"
| "grouped_digits [c] = isdigit c"
| "grouped_digits (c # d # cs) =
     (if isdigit c
      then (if d = CHR ''_'' then grouped_digits cs else grouped_digits (d # cs))
      else False)"

definition decimal_value :: "string \<Rightarrow> int" where
  "decimal_value ds = foldl (\<lambda>a c. 10 * a + digit_value c) 0 ds"

text \<open>The syntax: the number of digit characters and the value, or \<open>None\<close>.\<close>

definition int_literal :: "string \<Rightarrow> (nat \<times> int) option" where
  "int_literal s =
     (let t = dropWhile isspace s;
          neg = (case t of [] \<Rightarrow> False | c # r \<Rightarrow> c = CHR ''-'');
          u = (case t of [] \<Rightarrow> [] | c # r \<Rightarrow> if c = CHR ''-'' \<or> c = CHR ''+'' then r else t);
          ds = takeWhile digit_or_underscore u;
          rest = dropWhile digit_or_underscore u
      in if grouped_digits ds \<and> list_all isspace rest
         then Some (length (filter isdigit ds),
                    (if neg then - 1 else 1) * decimal_value (filter isdigit ds))
         else None)"

definition over_limit :: "nat \<Rightarrow> nat \<Rightarrow> bool" where
  "over_limit lim digits = (0 < lim \<and> 640 < digits \<and> lim < digits)"

definition int_of_str :: "nat \<Rightarrow> string \<Rightarrow> int option" where
  "int_of_str lim s =
     (case int_literal s of
        None \<Rightarrow> None
      | Some (digits, n) \<Rightarrow> if over_limit lim digits then None else Some n)"

section \<open>\<^verbatim>\<open>dmcontent/converters.py\<close>\<close>

subsection \<open>\<^verbatim>\<open>convert_to_boolean\<close>\<close>

definition convert_to_boolean :: "pyval \<Rightarrow> pyerr + pyval" where
  "convert_to_boolean v =
     (case v of
        PStr s \<Rightarrow>
          if lower s \<in> set [''t'', ''true'', ''on'', ''yes'', ''1''] then Inr (PBool True)
          else if lower s \<in> set [''f'', ''false'', ''off'', ''no'', ''0''] then Inr (PBool False)
          else Inr v
      | _ \<Rightarrow> Inr v)"

subsection \<open>\<^verbatim>\<open>convert_to_number\<close>\<close>

text \<open>
  Lines 46-47, \<^verbatim>\<open>if prefix and value.startswith(prefix): value = value[len(prefix):]\<close>,
  first on a \<^verbatim>\<open>str\<close> and then on any value. The attribute lookup happens only when
  \<^verbatim>\<open>prefix\<close> is true. Of the values modelled, only \<^verbatim>\<open>str\<close> and \<^verbatim>\<open>bytes\<close> have a
  \<^verbatim>\<open>startswith\<close>; the one of \<^verbatim>\<open>bytes\<close> rejects a \<^verbatim>\<open>str\<close> argument with a
  \<^verbatim>\<open>TypeError\<close>. The statement is outside the \<^verbatim>\<open>try\<close>.
\<close>

fun strip_prefix_text :: "string \<Rightarrow> string option \<Rightarrow> string" where
  "strip_prefix_text s None = s"
| "strip_prefix_text s (Some p) =
     (if truthy (Some p) \<and> startswith s p then slice_from (length p) s else s)"

definition strip_prefix :: "pyval \<Rightarrow> string option \<Rightarrow> pyerr + pyval" where
  "strip_prefix v pre =
     (if truthy pre
      then (case v of
              PStr s \<Rightarrow> Inr (PStr (strip_prefix_text s pre))
            | PBytes b \<Rightarrow> Inl TypeError
            | _ \<Rightarrow> Inl AttributeError)
      else Inr v)"

text \<open>Lines 48-49, \<^verbatim>\<open>if suffix and value.endswith(suffix): value = value[:-len(suffix)]\<close>.\<close>

fun strip_suffix_text :: "string \<Rightarrow> string option \<Rightarrow> string" where
  "strip_suffix_text s None = s"
| "strip_suffix_text s (Some q) =
     (if truthy (Some q) \<and> endswith s q then slice_to_minus (length q) s else s)"

definition strip_suffix :: "pyval \<Rightarrow> string option \<Rightarrow> pyerr + pyval" where
  "strip_suffix v suf =
     (if truthy suf
      then (case v of
              PStr s \<Rightarrow> Inr (PStr (strip_suffix_text s suf))
            | PBytes b \<Rightarrow> Inl TypeError
            | _ \<Rightarrow> Inl AttributeError)
      else Inr v)"

text \<open>The text that reaches the parse of line 52 when \<^verbatim>\<open>value\<close> is a \<^verbatim>\<open>str\<close>.\<close>

definition stripped :: "string \<Rightarrow> string option \<Rightarrow> string option \<Rightarrow> string" where
  "stripped s pre suf = strip_suffix_text (strip_prefix_text s pre) suf"

text \<open>
  Line 52, \<^verbatim>\<open>float(value) if "." in value else int(value)\<close>. On a \<^verbatim>\<open>str\<close> the test is
  a substring test for one character. On a list it is membership, and then \<^verbatim>\<open>float\<close>
  or \<^verbatim>\<open>int\<close> of a list is a \<^verbatim>\<open>TypeError\<close>. On the other values the test itself is a
  \<^verbatim>\<open>TypeError\<close> (not iterable; \<^verbatim>\<open>bytes\<close> wants a bytes-like left operand).
  The interpreter's \<^verbatim>\<open>float(str)\<close> is the parameter \<open>float_of_str\<close>, \<open>None\<close> for its
  \<^verbatim>\<open>ValueError\<close>, and its digit limit for \<^verbatim>\<open>int(str)\<close> is the parameter \<open>lim\<close>.
\<close>

definition number_of ::
  "(string \<Rightarrow> 64 word option) \<Rightarrow> nat \<Rightarrow> pyval \<Rightarrow> pyerr + pyval" where
  "number_of float_of_str lim v =
     (case v of
        PStr s \<Rightarrow>
          if CHR ''.'' \<in> set s
          then (case float_of_str s of None \<Rightarrow> Inl ValueError | Some f \<Rightarrow> Inr (PFloat f))
          else (case int_of_str lim s of None \<Rightarrow> Inl ValueError | Some n \<Rightarrow> Inr (PInt n))
      | PList xs \<Rightarrow> (if PStr ''.'' \<in> set xs then Inl TypeError else Inl TypeError)
      | _ \<Rightarrow> Inl TypeError)"

text \<open>Lines 51-54: \<^verbatim>\<open>except (TypeError, ValueError): return value\<close>, where \<^verbatim>\<open>value\<close>
  is the variable the two stripping statements have assigned.\<close>

fun caught :: "pyerr \<Rightarrow> bool" where
  "caught TypeError = True"
| "caught ValueError = True"
| "caught AttributeError = False"

definition convert_to_number ::
  "(string \<Rightarrow> 64 word option) \<Rightarrow> nat \<Rightarrow> pyval \<Rightarrow> string option \<Rightarrow> string option
     \<Rightarrow> pyerr + pyval" where
  "convert_to_number float_of_str lim v pre suf =
     (case strip_prefix v pre of
        Inl e \<Rightarrow> Inl e
      | Inr v1 \<Rightarrow>
          (case strip_suffix v1 suf of
             Inl e \<Rightarrow> Inl e
           | Inr v2 \<Rightarrow>
               (case number_of float_of_str lim v2 of
                  Inr r \<Rightarrow> Inr r
                | Inl e \<Rightarrow> if caught e then Inr v2 else Inl e)))"

text \<open>A float parser to run the model with: it reads three literals whose value is
  exact in binary (0.5, 1.5 and 100000.0) and rejects every other string.\<close>

definition float_of_str_sample :: "string \<Rightarrow> 64 word option" where
  "float_of_str_sample s =
     (if s = ''0.5'' then Some 0x3FE0000000000000
      else if s = ''1.5'' then Some 0x3FF8000000000000
      else if s = ''1e5'' then Some 0x40F86A0000000000
      else None)"

text \<open>The decimal numeral of a natural number, as \<^verbatim>\<open>str(n)\<close> writes it.\<close>

fun digits_of :: "nat \<Rightarrow> string" where
  "digits_of n =
     (if n < 10 then [char_of (48 + n)]
      else digits_of (n div 10) @ [char_of (48 + n mod 10)])"

section \<open>\<^verbatim>\<open>dmcontent/govuk_frontend.py\<close>\<close>

subsection \<open>The collaborators: questions, dictionaries, markup\<close>

text \<open>
  Modelled from the spec: the class \<^verbatim>\<open>Question\<close> of \<^verbatim>\<open>dmcontent/questions.py\<close>, which
  this module imports and reads only. It has an id, a type tag, the prompt text
  \<^verbatim>\<open>question\<close>, the flag \<^verbatim>\<open>is_optional\<close>, and two text fields that may be missing
  altogether, for which \<^verbatim>\<open>question.get(name)\<close> then answers \<^verbatim>\<open>None\<close>.
\<close>

record Question =
  question_id :: string
  question_type :: string
  question :: string
  is_optional :: bool
  question_advice :: "string option"
  hint :: "string option"

text \<open>
  A \<^verbatim>\<open>dict\<close> with string keys is an association list in insertion order:
  \<^verbatim>\<open>k in d\<close> and \<^verbatim>\<open>d[k]\<close> are \<^const>\<open>map_of\<close>, \<^verbatim>\<open>d[k] = v\<close> is \<^const>\<open>AList.update\<close>, and
  \<^verbatim>\<open>d\<close> is true when it is not empty. The values of the parameter dictionary are
  strings, markup, booleans, nested dictionaries, the submitted answer and the
  formatted error message, the last two of types this module never looks into.
\<close>

datatype ('v, 'm) param =
    JStr string
  | JMarkup string
  | JBool bool
  | JDict "(string \<times> ('v, 'm) param) list"
  | JData 'v
  | JError 'm

text \<open>
  \<^verbatim>\<open>jinja2.escape\<close> replaces the five characters that are special in HTML.
  \<^verbatim>\<open>Markup\<close> is a string class whose \<^verbatim>\<open>+=\<close> appends markup as it is and escapes a plain
  string first.
\<close>

definition escape_char :: "char \<Rightarrow> string" where
  "escape_char c =
     (if c = CHR ''&'' then ''&amp;''
      else if c = CHR ''>'' then ''&gt;''
      else if c = CHR ''<'' then ''&lt;''
      else if c = CHR 0x27 then ''&#39;''
      else if c = CHR 0x22 then ''&#34;''
      else [c])"

definition escape :: "string \<Rightarrow> string" where
  "escape s = concat (map escape_char s)"

definition markup_add_markup :: "string \<Rightarrow> string \<Rightarrow> string" where
  "markup_add_markup m x = m @ x"

definition markup_add_str :: "string \<Rightarrow> string \<Rightarrow> string" where
  "markup_add_str m x = m @ escape x"

definition div_open :: string where
  "div_open = ''<div class='' @ [CHR 0x22] @ ''app-hint--text'' @ [CHR 0x22] @ ''>'' @ [CHR 0x0A]"

definition div_close :: string where
  "div_close = [CHR 0x0A] @ ''</div>''"

subsection \<open>\<^verbatim>\<open>_params\<close>, \<^verbatim>\<open>govuk_input\<close>, \<^verbatim>\<open>from_question\<close>\<close>

text \<open>Lines 125-141: the hint markup, built up statement by statement.\<close>

definition hint_html :: "Question \<Rightarrow> string" where
  "hint_html q =
     (let h0 = [];
          h1 = (case question_advice q of
                  None \<Rightarrow> h0
                | Some advice \<Rightarrow>
                    if advice = [] then h0
                    else (let a = markup_add_markup h0 div_open;
                              b = markup_add_markup a (escape advice);
                              c = markup_add_markup b div_close
                          in if truthy (hint q) then markup_add_str c [CHR 0x0A] else c))
      in (case hint q of
            None \<Rightarrow> h1
          | Some t \<Rightarrow> if t = [] then h1 else markup_add_markup h1 (escape t)))"

text \<open>
  \<^verbatim>\<open>_params\<close>, one definition for each group of statements: the label (lines 109-123),
  the hint (143-144), the value (146-147), the error message (149-150). The parameter
  \<open>error_message\<close> stands for \<^verbatim>\<open>govuk_error(e)["errorMessage"]\<close> of
  \<^verbatim>\<open>dmutils.forms.errors\<close>, another package.
\<close>

type_synonym ('v, 'm) param_dict = "(string \<times> ('v, 'm) param) list"

definition set_label :: "Question \<Rightarrow> ('v, 'm) param_dict \<Rightarrow> ('v, 'm) param_dict" where
  "set_label q p =
     (let label_text = (if is_optional q then question q @ '' (optional)'' else question q)
      in AList.update ''label''
           (JDict [(''classes'', JStr ''govuk-label--l''),
                   (''isPageHeading'', JBool True),
                   (''text'', JStr label_text)]) p)"

definition set_hint :: "Question \<Rightarrow> ('v, 'm) param_dict \<Rightarrow> ('v, 'm) param_dict" where
  "set_hint q p =
     (if hint_html q \<noteq> []
      then AList.update ''hint'' (JDict [(''html'', JMarkup (hint_html q))]) p
      else p)"

definition set_value ::
  "Question \<Rightarrow> (string \<times> 'v) list option \<Rightarrow> ('v, 'm) param_dict \<Rightarrow> ('v, 'm) param_dict" where
  "set_value q data p =
     (case data of
        None \<Rightarrow> p
      | Some d \<Rightarrow>
          if d \<noteq> []
          then (case map_of d (question_id q) of
                  None \<Rightarrow> p
                | Some v \<Rightarrow> AList.update ''value'' (JData v) p)
          else p)"

definition set_error_message ::
  "('e \<Rightarrow> 'm) \<Rightarrow> Question \<Rightarrow> (string \<times> 'e) list option \<Rightarrow> ('v, 'm) param_dict
     \<Rightarrow> ('v, 'm) param_dict" where
  "set_error_message error_message q errors p =
     (case errors of
        None \<Rightarrow> p
      | Some es \<Rightarrow>
          if es \<noteq> []
          then (case map_of es (question_id q) of
                  None \<Rightarrow> p
                | Some e \<Rightarrow> AList.update ''errorMessage'' (JError (error_message e)) p)
          else p)"

definition params ::
  "('e \<Rightarrow> 'm) \<Rightarrow> Question \<Rightarrow> (string \<times> 'v) list option \<Rightarrow> (string \<times> 'e) list option
     \<Rightarrow> ('v, 'm) param_dict" where
  "params error_message q data errors =
     set_error_message error_message q errors
       (set_value q data
          (set_hint q
             (set_label q
                [(''id'', JStr (''input-'' @ question_id q)), (''name'', JStr (question_id q))])))"

definition govuk_input ::
  "('e \<Rightarrow> 'm) \<Rightarrow> Question \<Rightarrow> (string \<times> 'v) list option \<Rightarrow> (string \<times> 'e) list option
     \<Rightarrow> (string \<times> ('v, 'm) param) list" where
  "govuk_input error_message q data errors =
     AList.update ''classes'' (JStr ''app-text-input--height-compatible'')
       (params error_message q data errors)"

definition from_question ::
  "('e \<Rightarrow> 'm) \<Rightarrow> Question \<Rightarrow> (string \<times> 'v) list option \<Rightarrow> (string \<times> 'e) list option
     \<Rightarrow> (string \<times> (string \<times> ('v, 'm) param) list) option" where
  "from_question error_message q data errors =
     (if question_type q = ''text''
      then Some (''govukInput'', govuk_input error_message q data errors)
      else None)"

text \<open>A question, an answer and an error to run the builder on.\<close>

definition sample_question :: Question where
  "sample_question =
     \<lparr> question_id = ''q1'', question_type = ''text'', question = ''Name?'',
       is_optional = True, question_advice = Some ''a<b'', hint = Some ''h&'' \<rparr>"

declare digits_of.simps [simp del]

section \<open>Facts about the built-ins\<close>

lemma truthy_iff: "truthy x = (\<exists>t. x = Some t \<and> t \<noteq> [])"
  by (cases x) simp_all

lemma of_char_digit: "d < 10 \<Longrightarrow> (of_char (char_of (48 + d :: nat)) :: nat) = 48 + d"
  by (simp add: of_char_of)

lemma isdigit_char_of: "d < 10 \<Longrightarrow> isdigit (char_of (48 + d :: nat))"
  by (simp add: isdigit_def of_char_digit)

lemma digit_value_char_of: "d < 10 \<Longrightarrow> digit_value (char_of (48 + d :: nat)) = int d"
  by (simp add: digit_value_def of_char_digit)

lemma isdigit_not_space: "isdigit c \<Longrightarrow> \<not> isspace c"
  by (auto simp: isdigit_def isspace_def)

lemma isdigit_not_sign: "isdigit c \<Longrightarrow> c \<noteq> CHR ''-'' \<and> c \<noteq> CHR ''+'' \<and> c \<noteq> CHR ''_''"
  by (auto simp: isdigit_def)

lemma digits_of_all_digits: "list_all isdigit (digits_of n)"
proof (induction n rule: digits_of.induct)
  case (1 n)
  show ?case
  proof (cases "n < 10")
    case True
    then show ?thesis by (simp add: digits_of.simps [of n] isdigit_char_of)
  next
    case False
    with 1 show ?thesis by (simp add: digits_of.simps [of n] isdigit_char_of)
  qed
qed

lemma digits_of_nonempty: "digits_of n \<noteq> []"
  by (simp add: digits_of.simps [of n])

lemma decimal_value_snoc: "decimal_value (ds @ [c]) = 10 * decimal_value ds + digit_value c"
  by (simp add: decimal_value_def)

lemma decimal_value_digits_of: "decimal_value (digits_of n) = int n"
proof (induction n rule: digits_of.induct)
  case (1 n)
  show ?case
  proof (cases "n < 10")
    case True
    then show ?thesis
      by (simp add: digits_of.simps [of n] decimal_value_def digit_value_char_of)
  next
    case False
    with 1 have "decimal_value (digits_of (n div 10)) = int (n div 10)" by simp
    moreover have "10 * int (n div 10) + int (n mod 10) = int n" by presburger
    ultimately show ?thesis using False
      by (simp add: digits_of.simps [of n] decimal_value_snoc digit_value_char_of)
  qed
qed

lemma grouped_digits_all: "ds \<noteq> [] \<Longrightarrow> list_all isdigit ds \<Longrightarrow> grouped_digits ds"
  by (induction ds rule: grouped_digits.induct) (auto dest: isdigit_not_sign)

text \<open>A bare run of digits is read as its decimal value, unless it is over the limit.\<close>

lemma int_literal_digits:
  assumes "ds \<noteq> []" "list_all isdigit ds"
  shows "int_literal ds = Some (length ds, decimal_value ds)"
proof -
  obtain c r where ds: "ds = c # r" using assms(1) by (cases ds) auto
  have c: "isdigit c" using assms(2) ds by simp
  have t: "dropWhile isspace ds = ds" using c ds by (simp add: isdigit_not_space)
  have tw: "takeWhile digit_or_underscore ds = ds"
    using assms(2) by (simp add: list_all_iff digit_or_underscore_def)
  have dw: "dropWhile digit_or_underscore ds = []"
    using assms(2) by (simp add: list_all_iff digit_or_underscore_def)
  have f: "filter isdigit ds = ds" using assms(2) by (simp add: list_all_iff)
  have g: "grouped_digits ds" using assms by (rule grouped_digits_all)
  have sg: "c \<noteq> CHR ''-''" "c \<noteq> CHR ''+''" using c isdigit_not_sign by blast+
  have "int_literal (c # r) = Some (length (c # r), decimal_value (c # r))"
    unfolding int_literal_def using t tw dw f g sg unfolding ds by (simp add: Let_def)
  then show ?thesis by (simp add: ds)
qed

lemma int_of_str_digits_of:
  "\<not> over_limit lim (length (digits_of n)) \<Longrightarrow> int_of_str lim (digits_of n) = Some (int n)"
  by (simp add: int_of_str_def int_literal_digits digits_of_nonempty digits_of_all_digits
      decimal_value_digits_of)

lemma int_of_str_short:
  "int_literal s = Some (d, n) \<Longrightarrow> d \<le> 640 \<Longrightarrow> int_of_str lim s = Some n"
  by (simp add: int_of_str_def over_limit_def)

lemma int_of_str_no_literal: "int_literal s = None \<Longrightarrow> int_of_str lim s = None"
  by (simp add: int_of_str_def)

lemma dot_not_digit: "list_all isdigit ds \<Longrightarrow> CHR ''.'' \<notin> set ds"
  by (auto simp: list_all_iff isdigit_def)

section \<open>Facts about \<^const>\<open>convert_to_number\<close>\<close>

lemma strip_prefix_str: "strip_prefix (PStr s) pre = Inr (PStr (strip_prefix_text s pre))"
  by (cases pre) (simp_all add: strip_prefix_def)

lemma strip_suffix_str: "strip_suffix (PStr s) suf = Inr (PStr (strip_suffix_text s suf))"
  by (cases suf) (simp_all add: strip_suffix_def)

lemma strip_prefix_empty: "strip_prefix v (Some []) = strip_prefix v None"
  by (simp add: strip_prefix_def)

lemma strip_suffix_empty: "strip_suffix v (Some []) = strip_suffix v None"
  by (simp add: strip_suffix_def)

lemma number_of_str_error: "number_of fl lim (PStr t) = Inl e \<Longrightarrow> e = ValueError"
  by (auto simp: number_of_def split: if_splits option.splits)

lemma number_of_non_text: "(\<forall>s. v \<noteq> PStr s) \<Longrightarrow> number_of fl lim v = Inl TypeError"
  by (cases v) (simp_all add: number_of_def)

text \<open>On a string the function always returns: the parse result, or the stripped text.\<close>

lemma convert_to_number_str:
  "convert_to_number fl lim (PStr s) pre suf =
     (case number_of fl lim (PStr (stripped s pre suf)) of
        Inr r \<Rightarrow> Inr r
      | Inl e \<Rightarrow> Inr (PStr (stripped s pre suf)))"
  by (auto simp: convert_to_number_def strip_prefix_str strip_suffix_str stripped_def
      split: sum.splits dest: number_of_str_error)

lemma convert_to_number_str_returns: "\<exists>r. convert_to_number fl lim (PStr s) pre suf = Inr r"
  by (simp add: convert_to_number_str split: sum.splits)

text \<open>Without a prefix and a suffix, a value that is not a string comes back as it is:
  the \<^verbatim>\<open>TypeError\<close> of line 52 is caught.\<close>

lemma convert_to_number_non_text_no_affix:
  "(\<forall>s. v \<noteq> PStr s) \<Longrightarrow> \<not> truthy pre \<Longrightarrow> \<not> truthy suf
     \<Longrightarrow> convert_to_number fl lim v pre suf = Inr v"
  by (simp add: convert_to_number_def strip_prefix_def strip_suffix_def number_of_non_text)

text \<open>With a non-empty prefix, a value that is not a string makes line 46 raise.\<close>

lemma convert_to_number_non_text_prefix_raises:
  "(\<forall>s. v \<noteq> PStr s) \<Longrightarrow> truthy pre \<Longrightarrow> \<exists>e. convert_to_number fl lim v pre suf = Inl e"
  by (cases v) (simp_all add: convert_to_number_def strip_prefix_def)

lemma strip_prefix_text_append: "strip_prefix_text (p @ t) (Some p) = t"
  by (simp add: startswith_def slice_from_def)

lemma strip_suffix_text_append: "strip_suffix_text (t @ q) (Some q) = t"
  by (simp add: endswith_def slice_to_minus_def)

lemma stripped_append: "stripped (p @ t @ q) (Some p) (Some q) = t"
  by (simp add: stripped_def strip_prefix_text_append strip_suffix_text_append
      del: strip_prefix_text.simps strip_suffix_text.simps)

lemma stripped_no_affix: "stripped s None None = s"
  by (simp add: stripped_def)

section \<open>Facts about the parameter dictionary\<close>

lemma escape_nonempty: "s \<noteq> [] \<Longrightarrow> escape s \<noteq> []"
  by (cases s) (auto simp: escape_def escape_char_def)

lemma escape_newline: "escape [CHR 0x0A] = [CHR 0x0A]"
  by (simp add: escape_def escape_char_def)

lemma hint_html_nonempty:
  "(hint_html q \<noteq> []) = (truthy (question_advice q) \<or> truthy (hint q))"
  by (auto simp: hint_html_def Let_def markup_add_markup_def markup_add_str_def div_open_def
      escape_nonempty split: option.splits)

lemma hint_html_both:
  "question_advice q = Some a \<Longrightarrow> a \<noteq> [] \<Longrightarrow> hint q = Some h \<Longrightarrow> h \<noteq> []
     \<Longrightarrow> hint_html q = div_open @ escape a @ div_close @ [CHR 0x0A] @ escape h"
  by (simp add: hint_html_def markup_add_markup_def markup_add_str_def escape_newline)

lemma map_of_set_label: "k \<noteq> ''label'' \<Longrightarrow> map_of (set_label q p) k = map_of p k"
  by (simp add: set_label_def Let_def update_conv' del: AList.update.simps)

lemma map_of_set_hint:
  "map_of (set_hint q p) k =
     (if k = ''hint'' \<and> hint_html q \<noteq> [] then Some (JDict [(''html'', JMarkup (hint_html q))])
      else map_of p k)"
  by (simp add: set_hint_def update_conv')

lemma map_of_set_value:
  "map_of (set_value q d p) k =
     (if k = ''value'' \<and> (\<exists>m v. d = Some m \<and> map_of m (question_id q) = Some v)
      then (case d of None \<Rightarrow> None | Some m \<Rightarrow> map_option JData (map_of m (question_id q)))
      else map_of p k)"
  by (auto simp: set_value_def update_conv' split: option.splits)

lemma map_of_set_error_message:
  "map_of (set_error_message g q e p) k =
     (if k = ''errorMessage'' \<and> (\<exists>m v. e = Some m \<and> map_of m (question_id q) = Some v)
      then (case e of None \<Rightarrow> None
            | Some m \<Rightarrow> map_option (\<lambda>x. JError (g x)) (map_of m (question_id q)))
      else map_of p k)"
  by (auto simp: set_error_message_def update_conv' split: option.splits)

lemma map_of_govuk_input:
  "k \<noteq> ''classes'' \<Longrightarrow> map_of (govuk_input g q d e) k = map_of (params g q d e) k"
  by (simp add: govuk_input_def update_conv')

lemma params_hint:
  "map_of (params g q d e) ''hint'' =
     (if hint_html q \<noteq> [] then Some (JDict [(''html'', JMarkup (hint_html q))]) else None)"
  by (simp add: params_def map_of_set_error_message map_of_set_value map_of_set_hint
      map_of_set_label)

lemma params_value:
  "map_of (params g q d e) ''value'' =
     (case d of None \<Rightarrow> None | Some m \<Rightarrow> map_option JData (map_of m (question_id q)))"
  by (auto simp add: params_def map_of_set_error_message map_of_set_value map_of_set_hint
      map_of_set_label split: option.splits)

lemma params_error:
  "map_of (params g q d e) ''errorMessage'' =
     (case e of None \<Rightarrow> None
      | Some m \<Rightarrow> map_option (\<lambda>x. JError (g x)) (map_of m (question_id q)))"
  by (auto simp add: params_def map_of_set_error_message map_of_set_value map_of_set_hint
      map_of_set_label split: option.splits)

lemma key_in_dict: "(k \<in> fst ` set al) = (map_of al k \<noteq> None)"
  by (simp add: map_of_eq_None_iff)

section \<open>The claims\<close>

text \<open>
  C1. The claim: for every input value and every prefix and suffix,
  \<^verbatim>\<open>convert_to_number\<close> returns and never raises, and on a value that is not a string
  the stripping is skipped and the value comes back unchanged. The code does not do
  that: \<^verbatim>\<open>convert_to_number(123, prefix="\<pounds>")\<close> looks up \<^verbatim>\<open>startswith\<close> on an
  \<^verbatim>\<open>int\<close> before the \<^verbatim>\<open>try\<close> and the \<^verbatim>\<open>AttributeError\<close> leaves the function.
\<close>

theorem convert_to_number_int_with_prefix_raises:
  "convert_to_number fl lim (PInt 123) (Some [CHR 0xA3]) None = Inl AttributeError"
  by (simp add: convert_to_number_def strip_prefix_def)

text \<open>
  C2. The claim: on a string whose stripped text does not parse, the original input
  comes back, not the stripped remainder. The code returns the variable it has
  reassigned: \<^verbatim>\<open>convert_to_number("abckg", suffix="kg")\<close> is \<^verbatim>\<open>"abc"\<close>.
\<close>

theorem convert_to_number_original_counterexample:
  "number_of float_of_str_sample 4300 (PStr (stripped ''abckg'' None (Some ''kg''))) = Inl ValueError
   \<and> convert_to_number float_of_str_sample 4300 (PStr ''abckg'') None (Some ''kg'') = Inr (PStr ''abc'')
   \<and> convert_to_number float_of_str_sample 4300 (PStr ''abckg'') None (Some ''kg'')
       \<noteq> Inr (PStr ''abckg'')"
  by code_simp

text \<open>
  C2, amended. On a string whose stripped text does not parse (line 52 raises
  \<^verbatim>\<open>ValueError\<close>), \<^verbatim>\<open>convert_to_number\<close> returns the stripped text: the input without
  the prefix and the suffix that matched.
\<close>

theorem convert_to_number_parse_failure:
  "number_of fl lim (PStr (stripped s pre suf)) = Inl ValueError
     \<Longrightarrow> convert_to_number fl lim (PStr s) pre suf = Inr (PStr (stripped s pre suf))"
  by (simp add: convert_to_number_str)

theorem convert_to_number_parse_failure_witness:
  "number_of float_of_str_sample 4300 (PStr (stripped ''kgabckg'' (Some ''kg'') (Some ''kg''))) = Inl ValueError
   \<and> convert_to_number float_of_str_sample 4300 (PStr ''kgabckg'') (Some ''kg'') (Some ''kg'')
       = Inr (PStr ''abc'')"
proof -
  have s: "stripped ''kgabckg'' (Some ''kg'') (Some ''kg'') = ''abc''"
    by code_simp
  have h: "number_of float_of_str_sample 4300 (PStr (stripped ''kgabckg'' (Some ''kg'') (Some ''kg''))) = Inl ValueError"
    by code_simp
  show ?thesis
    using h convert_to_number_parse_failure [OF h] by (simp add: s)
qed

text \<open>
  C3. \<^verbatim>\<open>from_question\<close> returns the pair of \<^verbatim>\<open>"govukInput"\<close> and the parameters of
  \<^verbatim>\<open>govuk_input\<close> exactly when the type of the question is \<^verbatim>\<open>"text"\<close>, and \<^verbatim>\<open>None\<close>
  exactly when it is anything else.
\<close>

theorem from_question_dispatch:
  "(from_question g q d e = Some (''govukInput'', govuk_input g q d e)) = (question_type q = ''text'')
   \<and> (from_question g q d e = None) = (question_type q \<noteq> ''text'')"
  by (simp add: from_question_def)

text \<open>
  C4. The parameters of a text question have the key \<^verbatim>\<open>hint\<close> if and only if the
  question advice or the hint of the question is present and not empty; with neither
  present the key is absent.
\<close>

theorem hint_key_iff:
  "(''hint'' \<in> fst ` set (govuk_input g q d e))
     = ((\<exists>a. question_advice q = Some a \<and> a \<noteq> []) \<or> (\<exists>h. hint q = Some h \<and> h \<noteq> []))
   \<and> (''hint'' \<in> fst ` set (params g q d e))
     = ((\<exists>a. question_advice q = Some a \<and> a \<noteq> []) \<or> (\<exists>h. hint q = Some h \<and> h \<noteq> []))
   \<and> (question_advice q = None \<and> hint q = None
        \<longrightarrow> ''hint'' \<notin> fst ` set (govuk_input g q d e))"
  by (auto simp: key_in_dict map_of_govuk_input params_hint hint_html_nonempty truthy_iff)

theorem hint_key_iff_witness:
  "question_advice (sample_question\<lparr>question_advice := None, hint := None\<rparr>) = None
   \<and> hint (sample_question\<lparr>question_advice := None, hint := None\<rparr>) = None
   \<and> ''hint'' \<notin> fst ` set (govuk_input (\<lambda>e::nat. e)
         (sample_question\<lparr>question_advice := None, hint := None\<rparr>) (None :: (string \<times> int) list option) None)
   \<and> ''hint'' \<in> fst ` set (govuk_input (\<lambda>e::nat. e) sample_question (None :: (string \<times> int) list option) None)"
  using hint_key_iff [of "\<lambda>e::nat. e" "sample_question\<lparr>question_advice := None, hint := None\<rparr>" "None :: (string \<times> int) list option" None]
    hint_key_iff [of "\<lambda>e::nat. e" sample_question "None :: (string \<times> int) list option" None]
  by (simp add: sample_question_def)

text \<open>
  C5. When the question advice and the hint are both present and not empty, the hint
  markup is the opening of the container, the escaped advice, the closing of the
  container, one line break, and the escaped hint, in this order and with nothing else.
\<close>

theorem hint_html_advice_then_hint:
  "question_advice q = Some a \<Longrightarrow> a \<noteq> [] \<Longrightarrow> hint q = Some h \<Longrightarrow> h \<noteq> []
     \<Longrightarrow> map_of (govuk_input g q d e) ''hint''
         = Some (JDict [(''html'',
             JMarkup (div_open @ escape a @ div_close @ [CHR 0x0A] @ escape h))])"
  by (simp add: map_of_govuk_input params_hint hint_html_both)

theorem hint_html_advice_then_hint_witness:
  "question_advice sample_question = Some ''a<b'' \<and> hint sample_question = Some ''h&''
   \<and> map_of (govuk_input (\<lambda>e::nat. e) sample_question (None :: (string \<times> int) list option) None) ''hint''
       = Some (JDict [(''html'',
           JMarkup (''<div class='' @ [CHR 0x22] @ ''app-hint--text'' @ [CHR 0x22] @ ''>'' @ [CHR 0x0A]
             @ ''a&lt;b'' @ [CHR 0x0A] @ ''</div>'' @ [CHR 0x0A] @ ''h&amp;''))])"
proof -
  have a: "question_advice sample_question = Some ''a<b''" by (simp add: sample_question_def)
  have h: "hint sample_question = Some ''h&''" by (simp add: sample_question_def)
  have n: "''a<b'' \<noteq> []" "''h&'' \<noteq> []" by simp_all
  show ?thesis
    using a h hint_html_advice_then_hint [OF a n(1) h n(2), of "\<lambda>e::nat. e" "None :: (string \<times> int) list option" None]
    by (simp add: div_open_def div_close_def escape_def escape_char_def)
qed

text \<open>
  C6. The parameters have the key \<^verbatim>\<open>value\<close> if and only if a data dictionary was
  given and holds the id of the question, and then the value is that entry as it is;
  they have the key \<^verbatim>\<open>errorMessage\<close> if and only if an error dictionary was given and
  holds the id of the question.
\<close>

theorem value_and_error_message_iff:
  "(''value'' \<in> fst ` set (govuk_input g q d e))
     = (\<exists>m. d = Some m \<and> question_id q \<in> fst ` set m)
   \<and> map_of (govuk_input g q d e) ''value''
     = (case d of None \<Rightarrow> None | Some m \<Rightarrow> map_option JData (map_of m (question_id q)))
   \<and> (''errorMessage'' \<in> fst ` set (govuk_input g q d e))
     = (\<exists>m. e = Some m \<and> question_id q \<in> fst ` set m)"
  by (auto simp: key_in_dict map_of_govuk_input params_value params_error split: option.splits)

text \<open>
  C7. \<^verbatim>\<open>convert_to_boolean\<close> never raises. On a string whose lower case is one of
  t, true, on, yes, 1 it returns \<^verbatim>\<open>True\<close>; on one whose lower case is one of f, false,
  off, no, 0 it returns \<^verbatim>\<open>False\<close>; on every other string and on every value that is
  not a string it returns its input.
\<close>

theorem convert_to_boolean_cases:
  "(lower s \<in> {''t'', ''true'', ''on'', ''yes'', ''1''}
      \<longrightarrow> convert_to_boolean (PStr s) = Inr (PBool True))
   \<and> (lower s \<in> {''f'', ''false'', ''off'', ''no'', ''0''}
      \<longrightarrow> convert_to_boolean (PStr s) = Inr (PBool False))
   \<and> (lower s \<notin> {''t'', ''true'', ''on'', ''yes'', ''1''} \<union> {''f'', ''false'', ''off'', ''no'', ''0''}
      \<longrightarrow> convert_to_boolean (PStr s) = Inr (PStr s))
   \<and> ((\<forall>t. v \<noteq> PStr t) \<longrightarrow> convert_to_boolean v = Inr v)
   \<and> (\<exists>r. convert_to_boolean v = Inr r)"
  by (cases v) (auto simp: convert_to_boolean_def)

theorem convert_to_boolean_cases_witness:
  "lower ''YES'' \<in> {''t'', ''true'', ''on'', ''yes'', ''1''}
   \<and> convert_to_boolean (PStr ''YES'') = Inr (PBool True)
   \<and> lower ''Off'' \<in> {''f'', ''false'', ''off'', ''no'', ''0''}
   \<and> convert_to_boolean (PStr ''Off'') = Inr (PBool False)
   \<and> lower ''falsey'' \<notin> {''t'', ''true'', ''on'', ''yes'', ''1''} \<union> {''f'', ''false'', ''off'', ''no'', ''0''}
   \<and> convert_to_boolean (PStr ''falsey'') = Inr (PStr ''falsey'')
   \<and> (\<forall>t. PInt 0 \<noteq> PStr t)
   \<and> convert_to_boolean (PInt 0) = Inr (PInt 0)"
proof -
  have y: "lower ''YES'' = ''yes''" by code_simp
  have f: "lower ''Off'' = ''off''" by code_simp
  have o: "lower ''falsey'' = ''falsey''" by code_simp
  show ?thesis
    using convert_to_boolean_cases [of "''YES''" "PInt 0"]
      convert_to_boolean_cases [of "''Off''" "PInt 0"]
      convert_to_boolean_cases [of "''falsey''" "PInt 0"]
    by (simp add: y f o)
qed

text \<open>
  C8. The claim: every string that parses as a number gives a float when its stripped
  text has a decimal point, and the integer equal to its value when it has none. The
  code chooses the parser by the decimal point alone: \<^verbatim>\<open>"1e5"\<close> is a number for
  \<^verbatim>\<open>float\<close> (100000.0), has no decimal point, goes to \<^verbatim>\<open>int\<close>, is refused there, and
  \<^verbatim>\<open>convert_to_number("1e5")\<close> is the string \<^verbatim>\<open>"1e5"\<close>.
\<close>

theorem convert_to_number_exponent_counterexample:
  "float_of_str_sample (stripped ''1e5'' None None) = Some 0x40F86A0000000000
   \<and> CHR ''.'' \<notin> set (stripped ''1e5'' None None)
   \<and> convert_to_number float_of_str_sample 4300 (PStr ''1e5'') None None = Inr (PStr ''1e5'')"
proof -
  have s: "stripped ''1e5'' None None = ''1e5''" by (simp add: stripped_no_affix)
  have l: "int_literal ''1e5'' = None" by code_simp
  have f: "float_of_str_sample ''1e5'' = Some 0x40F86A0000000000"
    by (simp add: float_of_str_sample_def)
  have "convert_to_number float_of_str_sample 4300 (PStr ''1e5'') None None = Inr (PStr ''1e5'')"
    by (simp add: convert_to_number_str s number_of_def int_of_str_no_literal [OF l])
  with s f show ?thesis by simp
qed

text \<open>
  C8, amended. On a string whose stripped text has a decimal point and is read by
  \<^verbatim>\<open>float\<close>, the result is that float. On a string whose stripped text has no decimal
  point and is read by \<^verbatim>\<open>int\<close>, the result is that integer, and it is the value of the
  numeral: the decimal numeral of a natural number \<open>k\<close>, when it is within the
  interpreter's digit limit, gives the integer \<open>k\<close>. A stripped text without a decimal
  point that \<^verbatim>\<open>int\<close> does not read is returned as a string, whatever \<^verbatim>\<open>float\<close> would
  make of it.
\<close>

theorem convert_to_number_float_or_int:
  "(CHR ''.'' \<in> set (stripped s pre suf) \<longrightarrow> fl (stripped s pre suf) = Some f
      \<longrightarrow> convert_to_number fl lim (PStr s) pre suf = Inr (PFloat f))
   \<and> (CHR ''.'' \<notin> set (stripped s pre suf) \<longrightarrow> int_of_str lim (stripped s pre suf) = Some n
      \<longrightarrow> convert_to_number fl lim (PStr s) pre suf = Inr (PInt n))
   \<and> (CHR ''.'' \<notin> set (stripped s pre suf) \<longrightarrow> int_of_str lim (stripped s pre suf) = None
      \<longrightarrow> convert_to_number fl lim (PStr s) pre suf = Inr (PStr (stripped s pre suf)))
   \<and> (\<not> over_limit lim (length (digits_of k))
      \<longrightarrow> convert_to_number fl lim (PStr (digits_of k)) None None = Inr (PInt (int k)))"
  by (simp add: convert_to_number_str number_of_def stripped_no_affix int_of_str_digits_of
      dot_not_digit [OF digits_of_all_digits])

theorem convert_to_number_float_or_int_witness:
  "CHR ''.'' \<in> set (stripped ''0.5'' None None)
   \<and> float_of_str_sample (stripped ''0.5'' None None) = Some 0x3FE0000000000000
   \<and> convert_to_number float_of_str_sample 4300 (PStr ''0.5'') None None
       = Inr (PFloat 0x3FE0000000000000)
   \<and> CHR ''.'' \<notin> set (stripped ''99999'' None None)
   \<and> int_of_str 4300 (stripped ''99999'' None None) = Some 99999
   \<and> convert_to_number float_of_str_sample 4300 (PStr ''99999'') None None = Inr (PInt 99999)
   \<and> CHR ''.'' \<notin> set (stripped ''inf'' None None)
   \<and> int_of_str 4300 (stripped ''inf'' None None) = None
   \<and> convert_to_number float_of_str_sample 4300 (PStr ''inf'') None None = Inr (PStr ''inf'')
   \<and> \<not> over_limit 4300 (length (digits_of 2024))
   \<and> convert_to_number float_of_str_sample 4300 (PStr (digits_of 2024)) None None
       = Inr (PInt 2024)"
proof -
  have a: "stripped ''0.5'' None None = ''0.5''" "stripped ''99999'' None None = ''99999''"
    "stripped ''inf'' None None = ''inf''"
    by (simp_all add: stripped_no_affix)
  have b: "float_of_str_sample ''0.5'' = Some 0x3FE0000000000000"
    by (simp add: float_of_str_sample_def)
  have c: "int_of_str 4300 ''99999'' = Some 99999" by code_simp
  have d: "int_of_str 4300 ''inf'' = None" by code_simp
  have e: "\<not> over_limit 4300 (length (digits_of 2024))" by code_simp
  show ?thesis
    using convert_to_number_float_or_int
        [where s = "''0.5''" and pre = None and suf = None and fl = float_of_str_sample
           and f = "0x3FE0000000000000" and lim = 4300 and n = 0 and k = 2024]
      convert_to_number_float_or_int
        [where s = "''99999''" and pre = None and suf = None and fl = float_of_str_sample
           and f = 0 and lim = 4300 and n = 99999 and k = 2024]
      convert_to_number_float_or_int
        [where s = "''inf''" and pre = None and suf = None and fl = float_of_str_sample
           and f = 0 and lim = 4300 and n = 0 and k = 2024]
    by (simp add: a b c d e)
qed

text \<open>
  C9. A prefix and a suffix are taken off once each before the parse:
  whatever stands between them is converted as if it had been passed alone.
  \<^verbatim>\<open>convert_to_number("\<pounds>100", prefix="\<pounds>")\<close> and
  \<^verbatim>\<open>convert_to_number("100kg", suffix="kg")\<close> are the integer 100, and when the rest is
  not a number the stripped string is returned:
  \<^verbatim>\<open>convert_to_number("abckg", suffix="kg")\<close> is \<^verbatim>\<open>"abc"\<close>.
\<close>

theorem convert_to_number_strips_once:
  "convert_to_number fl lim (PStr (p @ t @ q)) (Some p) (Some q) = convert_to_number fl lim (PStr t) None None
   \<and> convert_to_number fl lim (PStr ([CHR 0xA3] @ ''100'')) (Some [CHR 0xA3]) None = Inr (PInt 100)
   \<and> convert_to_number fl lim (PStr ''100kg'') None (Some ''kg'') = Inr (PInt 100)
   \<and> convert_to_number fl lim (PStr ''abckg'') None (Some ''kg'') = Inr (PStr ''abc'')"
proof -
  have g: "convert_to_number fl lim (PStr (p @ t @ q)) (Some p) (Some q)
             = convert_to_number fl lim (PStr t) None None"
    by (simp only: convert_to_number_str stripped_append stripped_no_affix)
  have s1: "stripped ([CHR 0xA3] @ ''100'') (Some [CHR 0xA3]) None = ''100''" by code_simp
  have s2: "stripped ''100kg'' None (Some ''kg'') = ''100''" by code_simp
  have s3: "stripped ''abckg'' None (Some ''kg'') = ''abc''" by code_simp
  have l1: "int_literal ''100'' = Some (3, 100)" by code_simp
  have l2: "int_literal ''abc'' = None" by code_simp
  have i1: "int_of_str lim ''100'' = Some 100" by (rule int_of_str_short [OF l1]) simp
  have i2: "int_of_str lim ''abc'' = None" by (rule int_of_str_no_literal [OF l2])
  have e1: "convert_to_number fl lim (PStr ([CHR 0xA3] @ ''100'')) (Some [CHR 0xA3]) None = Inr (PInt 100)"
    by (simp only: convert_to_number_str s1) (simp add: number_of_def i1)
  have e2: "convert_to_number fl lim (PStr ''100kg'') None (Some ''kg'') = Inr (PInt 100)"
    by (simp only: convert_to_number_str s2) (simp add: number_of_def i1)
  have e3: "convert_to_number fl lim (PStr ''abckg'') None (Some ''kg'') = Inr (PStr ''abc'')"
    by (simp only: convert_to_number_str s3) (simp add: number_of_def i2)
  from g e1 e2 e3 show ?thesis by blast
qed

text \<open>
  C10. An empty string as prefix or as suffix is the same as none: for every value
  the result is that of the call without the argument.
\<close>

theorem convert_to_number_empty_affix:
  "convert_to_number fl lim v (Some []) suf = convert_to_number fl lim v None suf
   \<and> convert_to_number fl lim v pre (Some []) = convert_to_number fl lim v pre None
   \<and> convert_to_number fl lim v (Some []) (Some []) = convert_to_number fl lim v None None"
  by (simp add: convert_to_number_def strip_prefix_empty strip_suffix_empty split: sum.splits)

end
